theory Spec2Isabelle
  imports Complex_Main
begin

section \<open>Data model (core/database\_connector.py)\<close>

text \<open>
  The two dataclasses of the connector. Python's unbounded \<open>int\<close> is \<^typ>\<open>int\<close>, an
  \<open>Optional\<close> field is an \<^typ>\<open>'a option\<close>, a \<open>str\<close> is a \<^typ>\<open>string\<close>. Type names and
  identifiers are taken to be ASCII text, one \<^typ>\<open>char\<close> per character.
\<close>

record ColumnInfo =
  column_name :: string
  data_type :: string
  nullable :: bool
  max_length :: "int option"
  precision :: "int option"
  scale :: "int option"
  is_primary_key :: bool
  is_unique :: bool
  default_value :: "string option"

record TableInfo =
  table_name :: string
  schema_name :: string
  table_type :: string
  columns :: "ColumnInfo list"
  primary_keys :: "string list"
  unique_constraints :: "string list list"
  row_count :: "int option"

text \<open>The dataclass constructor \<open>ColumnInfo(column_name, data_type, nullable)\<close> with the
  declared defaults for the six optional fields.\<close>

definition new_ColumnInfo :: "string \<Rightarrow> string \<Rightarrow> bool \<Rightarrow> ColumnInfo" where
  "new_ColumnInfo name ty nul =
     \<lparr> column_name = name, data_type = ty, nullable = nul,
       max_length = None, precision = None, scale = None,
       is_primary_key = False, is_unique = False, default_value = None \<rparr>"

section \<open>Python built-ins used by the translator\<close>

text \<open>\<open>str.upper()\<close> on ASCII text: the letters a..z (codes 97..122) move down by 32,
  every other character stays.\<close>

definition upper_char :: "char \<Rightarrow> char" where
  "upper_char c =
     (let n = (of_char c :: nat) in if 97 \<le> n \<and> n \<le> 122 then char_of (n - 32) else c)"

definition upper :: "string \<Rightarrow> string" where
  "upper s = map upper_char s"

text \<open>Truthiness of an \<open>Optional[int]\<close>: \<open>None\<close> and \<open>0\<close> are false.\<close>

definition truthy :: "int option \<Rightarrow> bool" where
  "truthy v = (case v of None \<Rightarrow> False | Some n \<Rightarrow> n \<noteq> 0)"

section \<open>SchemaTranslator: type mapping (core/schema\_translator.py)\<close>

definition oracle_to_sqlserver_mapping :: "(string \<times> string) list" where
  "oracle_to_sqlserver_mapping =
    [(''VARCHAR2'', ''NVARCHAR''),
     (''NVARCHAR2'', ''NVARCHAR''),
     (''CHAR'', ''NCHAR''),
     (''NCHAR'', ''NCHAR''),
     (''NUMBER'', ''DECIMAL''),
     (''FLOAT'', ''FLOAT''),
     (''BINARY_FLOAT'', ''REAL''),
     (''BINARY_DOUBLE'', ''FLOAT''),
     (''DATE'', ''DATETIME2''),
     (''TIMESTAMP'', ''DATETIME2''),
     (''TIMESTAMP WITH TIME ZONE'', ''DATETIMEOFFSET''),
     (''TIMESTAMP WITH LOCAL TIME ZONE'', ''DATETIME2''),
     (''CLOB'', ''NVARCHAR(MAX)''),
     (''NCLOB'', ''NVARCHAR(MAX)''),
     (''BLOB'', ''VARBINARY(MAX)''),
     (''RAW'', ''VARBINARY''),
     (''LONG RAW'', ''VARBINARY(MAX)''),
     (''ROWID'', ''UNIQUEIDENTIFIER''),
     (''UROWID'', ''UNIQUEIDENTIFIER''),
     (''XMLTYPE'', ''XML''),
     (''BFILE'', ''NVARCHAR(MAX)''),
     (''LONG'', ''NVARCHAR(MAX)'')]"

definition number_default_mapping :: string where
  "number_default_mapping = ''BIGINT''"

text \<open>\<open>dict.get(key, default)\<close> on the mapping table.\<close>

definition mapping_get :: "string \<Rightarrow> string \<Rightarrow> string" where
  "mapping_get k d = (case map_of oracle_to_sqlserver_mapping k of None \<Rightarrow> d | Some v \<Rightarrow> v)"

text \<open>The first half of \<open>_translate_column\<close> (lines 67--93): the new type, precision and
  scale. \<open>col.precision and col.precision <= 9\<close> is false for an absent and for a zero
  precision.\<close>

definition translate_type :: "ColumnInfo \<Rightarrow> string \<times> int option \<times> int option" where
  "translate_type col =
     (let original_type = upper (data_type col) in
      if original_type = ''NUMBER'' then
        (if precision col = None \<and> scale col = None then
           (number_default_mapping, None, None)
         else if scale col = None \<or> scale col = Some 0 then
           ((case precision col of
               None \<Rightarrow> ''BIGINT''
             | Some p \<Rightarrow> if p \<noteq> 0 \<and> p \<le> 9 then ''INT'' else ''BIGINT''),
            None, None)
         else (''DECIMAL'', precision col, scale col))
      else (mapping_get original_type original_type, precision col, scale col))"

text \<open>The second half (lines 95--113): the new length. Python's \<open>//\<close> is floor division,
  as \<open>div\<close> on \<^typ>\<open>int\<close> is. The tests \<open>... and new_length\<close> are false for an absent
  and for a zero length; both leave the length as it is.\<close>

definition translate_length :: "string \<Rightarrow> int option \<Rightarrow> int option" where
  "translate_length new_type len0 =
     (if new_type \<in> set [''NVARCHAR'', ''NCHAR'', ''VARBINARY''] then
        (let new_length =
               (if len0 = None then
                  (if new_type = ''NVARCHAR'' then Some 255
                   else if new_type = ''NCHAR'' then Some 1
                   else len0)
                else len0)
         in case new_length of
              None \<Rightarrow> None
            | Some n \<Rightarrow>
                if new_type \<in> set [''NVARCHAR'', ''NCHAR''] \<and> n \<noteq> 0 then
                  Some (max 1 (min (n div 4) 4000))
                else if new_type = ''VARBINARY'' \<and> n \<noteq> 0 then
                  Some (min n 8000)
                else Some n)
      else len0)"

definition translate_column :: "ColumnInfo \<Rightarrow> ColumnInfo" where
  "translate_column col =
     (case translate_type col of (new_type, new_precision, new_scale) \<Rightarrow>
        \<lparr> column_name = column_name col,
          data_type = new_type,
          nullable = nullable col,
          max_length = translate_length new_type (max_length col),
          precision = new_precision,
          scale = new_scale,
          is_primary_key = is_primary_key col,
          is_unique = is_unique col,
          default_value = default_value col \<rparr>)"

text \<open>\<open>translate_oracle_to_sqlserver\<close>: the loop appends one translated column per
  source column to the accumulator \<open>translated_columns\<close>.\<close>

fun translate_loop :: "ColumnInfo list \<Rightarrow> ColumnInfo list \<Rightarrow> ColumnInfo list" where
  "translate_loop translated_columns [] = translated_columns"
| "translate_loop translated_columns (col # rest) =
     translate_loop (translated_columns @ [translate_column col]) rest"

definition translate_oracle_to_sqlserver :: "TableInfo \<Rightarrow> TableInfo" where
  "translate_oracle_to_sqlserver table_info =
     \<lparr> table_name = table_name table_info,
       schema_name = schema_name table_info,
       table_type = table_type table_info,
       columns = translate_loop [] (columns table_info),
       primary_keys = primary_keys table_info,
       unique_constraints = unique_constraints table_info,
       row_count = row_count table_info \<rparr>"

section \<open>Audit column\<close>

text \<open>The \<open>ColumnInfo\<close> built in \<open>add_audit_columns\<close>; the fields it does not give take
  the dataclass defaults.\<close>

definition audit_column :: ColumnInfo where
  "audit_column =
     \<lparr> column_name = ''record_insert_datetime'',
       data_type = ''DATETIME2'',
       nullable = False,
       max_length = None,
       precision = None,
       scale = None,
       is_primary_key = False,
       is_unique = False,
       default_value = Some ''GETDATE()'' \<rparr>"

definition add_audit_columns :: "TableInfo \<Rightarrow> TableInfo" where
  "add_audit_columns table_info =
     (let new_columns = columns table_info @ [audit_column] in
      \<lparr> table_name = table_name table_info,
        schema_name = schema_name table_info,
        table_type = table_type table_info,
        columns = new_columns,
        primary_keys = primary_keys table_info,
        unique_constraints = unique_constraints table_info,
        row_count = row_count table_info \<rparr>)"

section \<open>Text rendering\<close>

text \<open>\<open>str(n)\<close> for an integer, as an f-string renders it: decimal digits, with a minus
  sign for a negative number.\<close>

definition digit_char :: "nat \<Rightarrow> char" where
  "digit_char d = char_of (48 + d)"

fun digits :: "nat \<Rightarrow> string" where
  "digits n = (if n < 10 then [digit_char n] else digits (n div 10) @ [digit_char (n mod 10)])"

declare digits.simps [simp del]

definition str_of_int :: "int \<Rightarrow> string" where
  "str_of_int i = (if i < 0 then CHR ''-'' # digits (nat (- i)) else digits (nat i))"

text \<open>\<open>sep.join(parts)\<close>.\<close>

fun join :: "string \<Rightarrow> string list \<Rightarrow> string" where
  "join sep [] = []"
| "join sep [x] = x"
| "join sep (x # y # ys) = x @ sep @ join sep (y # ys)"

text \<open>The type text that \<open>_format_column_definition\<close> appends after the bracketed name
  (lines 221--235). One threshold, 4000, decides \<open>(MAX)\<close> for all three types.\<close>

definition format_data_type :: "ColumnInfo \<Rightarrow> string" where
  "format_data_type col =
     (if data_type col \<in> set [''NVARCHAR'', ''NCHAR'', ''VARBINARY''] then
        (case max_length col of
           None \<Rightarrow> data_type col @ ''(255)''
         | Some n \<Rightarrow>
             if n \<noteq> 0 then
               (if n > 4000 then data_type col @ ''(MAX)''
                else data_type col @ ''('' @ str_of_int n @ '')'')
             else data_type col @ ''(255)'')
      else if data_type col = ''DECIMAL'' \<and> truthy (precision col) then
        (case (precision col, scale col) of
           (Some p, Some s) \<Rightarrow>
             if s \<noteq> 0 then data_type col @ ''('' @ str_of_int p @ '','' @ str_of_int s @ '')''
             else data_type col @ ''('' @ str_of_int p @ '')''
         | (Some p, None) \<Rightarrow> data_type col @ ''('' @ str_of_int p @ '')''
         | (None, _) \<Rightarrow> data_type col)
      else data_type col)"

definition format_column_definition :: "ColumnInfo \<Rightarrow> string" where
  "format_column_definition col =
     (let parts = [''['' @ column_name col @ '']''];
          parts = parts @ [format_data_type col];
          parts = (if \<not> nullable col then parts @ [''NOT NULL''] else parts);
          parts =
            (case default_value col of
               None \<Rightarrow> parts
             | Some dv \<Rightarrow>
                 if dv \<noteq> [] then
                   (if column_name col = ''record_insert_datetime'' then
                      parts @ [''CONSTRAINT [DF_'' @ column_name col @ ''] DEFAULT ('' @ dv @ '')'']
                    else parts @ [''DEFAULT '' @ dv])
                 else parts)
      in join '' '' parts)"

text \<open>\<open>_generate_table_ddl\<close>; the line feed is character 10.\<close>

definition nl :: string where
  "nl = [CHR 0x0A]"

fun column_definitions_loop :: "string list \<Rightarrow> ColumnInfo list \<Rightarrow> string list" where
  "column_definitions_loop column_definitions [] = column_definitions"
| "column_definitions_loop column_definitions (col # rest) =
     column_definitions_loop
       (column_definitions @ [''    '' @ format_column_definition col]) rest"

definition generate_table_ddl :: "TableInfo \<Rightarrow> string \<Rightarrow> string \<Rightarrow> string" where
  "generate_table_ddl table_info target_schema target_table_name =
     (let ddl_parts = [''CREATE TABLE ['' @ target_schema @ ''].['' @ target_table_name @ ''] (''];
          column_definitions = column_definitions_loop [] (columns table_info);
          ddl_parts = ddl_parts @ [join ('','' @ nl) column_definitions];
          ddl_parts =
            (if primary_keys table_info \<noteq> [] then
               (let pk_columns = join '', '' (map (\<lambda>pk. ''['' @ pk @ '']'') (primary_keys table_info));
                    constraint_name = ''PK_'' @ target_table_name
                in ddl_parts @
                   ['','' @ nl @ ''    CONSTRAINT ['' @ constraint_name @ ''] PRIMARY KEY (''
                      @ pk_columns @ '')''])
             else ddl_parts);
          ddl_parts = ddl_parts @ [nl @ '');'']
      in concat ddl_parts)"

text \<open>\<open>_generate_view_ddl\<close>: the loop collects the bracketed names of the columns whose
  name is not that of the audit column.\<close>

fun view_column_loop :: "string list \<Rightarrow> ColumnInfo list \<Rightarrow> string list" where
  "view_column_loop column_list [] = column_list"
| "view_column_loop column_list (col # rest) =
     (if column_name col \<noteq> ''record_insert_datetime'' then
        view_column_loop (column_list @ [''    ['' @ column_name col @ '']'']) rest
      else view_column_loop column_list rest)"

definition generate_view_ddl :: "string \<Rightarrow> string \<Rightarrow> string \<Rightarrow> ColumnInfo list \<Rightarrow> string" where
  "generate_view_ddl target_schema target_table_name view_name cols =
     (let ddl_parts = [''CREATE VIEW ['' @ target_schema @ ''].['' @ view_name @ ''] AS''];
          column_list = view_column_loop [] cols;
          ddl_parts = ddl_parts @ [''SELECT''];
          ddl_parts = ddl_parts @ [join ('','' @ nl) column_list];
          ddl_parts = ddl_parts @ [''FROM ['' @ target_schema @ ''].['' @ target_table_name @ ''];'']
      in join nl ddl_parts)"

text \<open>\<open>generate_ddl\<close> and its result. The view is built from the columns of the table
  description it is given; \<open>if view_ddl\<close> is false for \<open>None\<close> and for an empty text.
  The local variables that share a name with a field of the result carry a prime.\<close>

record DDLOutput =
  table_ddl :: string
  view_ddl :: "string option"
  target_table_name :: string
  target_view_name :: "string option"
  files_to_create :: "(string \<times> string) list"

definition generate_ddl :: "TableInfo \<Rightarrow> string \<Rightarrow> string \<Rightarrow> bool \<Rightarrow> DDLOutput" where
  "generate_ddl table_info target_schema table_name' create_view =
     (let table_ddl' = generate_table_ddl table_info target_schema table_name';
          view_name' =
            (if create_view then Some (schema_name table_info @ ''_'' @ table_name table_info)
             else None);
          view_ddl' =
            (case view_name' of
               None \<Rightarrow> None
             | Some vn \<Rightarrow>
                 Some (generate_view_ddl target_schema table_name' vn (columns table_info)));
          files = [(target_schema @ ''/Tables/'' @ table_name' @ ''.sql'', table_ddl')];
          files =
            (case (view_ddl', view_name') of
               (Some v, Some vn) \<Rightarrow>
                 if v \<noteq> [] then files @ [(target_schema @ ''/Views/'' @ vn @ ''.sql'', v)]
                 else files
             | _ \<Rightarrow> files)
      in \<lparr> table_ddl = table_ddl',
           view_ddl = view_ddl',
           target_table_name = table_name',
           target_view_name = view_name',
           files_to_create = files \<rparr>)"

section \<open>Naming validation\<close>

text \<open>The character classes of the pattern \<open>^[a-zA-Z_][a-zA-Z0-9_]*$\<close>, by character code.\<close>

definition is_ident_start :: "char \<Rightarrow> bool" where
  "is_ident_start c =
     (let n = (of_char c :: nat) in (97 \<le> n \<and> n \<le> 122) \<or> (65 \<le> n \<and> n \<le> 90) \<or> n = 95)"

definition is_ident_char :: "char \<Rightarrow> bool" where
  "is_ident_char c =
     (let n = (of_char c :: nat) in
        (97 \<le> n \<and> n \<le> 122) \<or> (65 \<le> n \<and> n \<le> 90) \<or> (48 \<le> n \<and> n \<le> 57) \<or> n = 95)"

text \<open>\<open>re.match\<close> of that pattern. Without the MULTILINE flag Python's \<open>$\<close> matches at
  the end of the string and also just before a line feed that ends the string, so one
  trailing line feed after the identifier characters is accepted.\<close>

definition re_match_identifier :: "string \<Rightarrow> bool" where
  "re_match_identifier s =
     (case s of
        [] \<Rightarrow> False
      | c # cs \<Rightarrow>
          is_ident_start c \<and>
          (list_all is_ident_char cs \<or>
           (cs \<noteq> [] \<and> last cs = CHR 0x0A \<and> list_all is_ident_char (butlast cs))))"

text \<open>The pattern as the specification reads it, identifier syntax over the whole name: a
  first character that is a letter or an underscore, followed by letters, digits and
  underscores only. The characters are listed, not given by code.\<close>

definition first_characters :: string where
  "first_characters = ''abcdefghijklmnopqrstuvwxyzABCDEFGHIJKLMNOPQRSTUVWXYZ_''"

definition later_characters :: string where
  "later_characters = ''abcdefghijklmnopqrstuvwxyzABCDEFGHIJKLMNOPQRSTUVWXYZ0123456789_''"

definition spec_identifier_syntax :: "string \<Rightarrow> bool" where
  "spec_identifier_syntax s =
     (case s of
        [] \<Rightarrow> False
      | c # cs \<Rightarrow> c \<in> set first_characters \<and> list_all (\<lambda>d. d \<in> set later_characters) cs)"

definition reserved_words :: "string list" where
  "reserved_words =
     [''SELECT'', ''FROM'', ''WHERE'', ''INSERT'', ''UPDATE'', ''DELETE'', ''CREATE'', ''DROP'',
      ''ALTER'', ''TABLE'', ''VIEW'', ''INDEX'', ''DATABASE'', ''SCHEMA'', ''USER'', ''ORDER'',
      ''GROUP'', ''HAVING'', ''UNION'', ''JOIN'', ''INNER'', ''LEFT'', ''RIGHT'', ''FULL'',
      ''OUTER'', ''ON'', ''AS'', ''AND'', ''OR'', ''NOT'', ''IN'', ''EXISTS'', ''LIKE'', ''BETWEEN'']"

definition validate_naming_convention :: "string \<Rightarrow> bool \<times> string" where
  "validate_naming_convention name =
     (if name = [] then (False, ''Table name cannot be empty'')
      else if length name > 128 then (False, ''Table name cannot exceed 128 characters'')
      else if \<not> re_match_identifier name then
        (False, ''Table name must start with letter or underscore and contain only letters, numbers, and underscores'')
      else if upper name \<in> set reserved_words then
        (False, [CHR 0x27] @ name @ [CHR 0x27] @
                '' is a reserved word and cannot be used as a table name'')
      else (True, ''Valid table name''))"

section \<open>Storage estimate\<close>

text \<open>The loop of \<open>estimate_storage_impact\<close> carries the two counters
  \<open>(estimated_row_size, variable_length_columns)\<close>. \<open>if col.max_length\<close> and
  \<open>col.max_length or 1\<close> treat an absent and a zero length alike.\<close>

fun storage_loop :: "int \<times> int \<Rightarrow> ColumnInfo list \<Rightarrow> int \<times> int" where
  "storage_loop acc [] = acc"
| "storage_loop (estimated_row_size, variable_length_columns) (col # rest) =
     storage_loop
       (if data_type col \<in> set [''NVARCHAR'', ''VARBINARY''] then
          ((case max_length col of
              None \<Rightarrow> estimated_row_size + 510
            | Some n \<Rightarrow> if n \<noteq> 0 then estimated_row_size + n * 2
                        else estimated_row_size + 510),
           variable_length_columns + 1)
        else if data_type col = ''NCHAR'' then
          (estimated_row_size +
             (case max_length col of None \<Rightarrow> 1 | Some n \<Rightarrow> if n \<noteq> 0 then n else 1) * 2,
           variable_length_columns)
        else if data_type col \<in> set [''INT'', ''BIGINT''] then
          (estimated_row_size + 8, variable_length_columns)
        else if data_type col = ''DECIMAL'' then
          (estimated_row_size + 9, variable_length_columns)
        else if data_type col = ''DATETIME2'' then
          (estimated_row_size + 8, variable_length_columns)
        else (estimated_row_size + 8, variable_length_columns))
       rest"

text \<open>\<open>s.endswith(t)\<close> and \<open>t in s\<close> on strings.\<close>

definition endswith :: "string \<Rightarrow> string \<Rightarrow> bool" where
  "endswith s t = (length t \<le> length s \<and> drop (length s - length t) s = t)"

definition contains :: "string \<Rightarrow> string \<Rightarrow> bool" where
  "contains t s = list_ex (\<lambda>i. take (length t) (drop i s) = t) [0 ..< Suc (length s)]"

definition get_performance_notes :: "TableInfo \<Rightarrow> string list" where
  "get_performance_notes table_info =
     (let notes = [];
          has_clob = list_ex (\<lambda>col. contains ''MAX'' (data_type col)) (columns table_info);
          notes = (if has_clob then
                     notes @ [''Table contains large object columns (MAX) which may impact performance'']
                   else notes);
          notes = (if primary_keys table_info = [] then
                     notes @ [''Table has no primary key - consider adding one for better performance'']
                   else notes);
          varchar_columns = filter (\<lambda>col. data_type col = ''NVARCHAR'') (columns table_info);
          notes = (if length varchar_columns > 10 then
                     notes @ [''Table has many variable-length columns which may impact row storage'']
                   else notes)
      in notes)"

text \<open>The result dictionary. The true division \<open>/\<close> of Python yields a float; the model
  keeps the exact quotient as a rational number, of which the float is the nearest
  double.\<close>

record StorageImpact =
  estimated_row_size_bytes :: int
  estimated_table_size_mb :: rat
  variable_length_columns :: int
  has_large_objects :: bool
  performance_notes :: "string list"

definition estimate_storage_impact :: "TableInfo \<Rightarrow> StorageImpact" where
  "estimate_storage_impact table_info =
     (case storage_loop (0, 0) (columns table_info) of
        (row_size, var_cols) \<Rightarrow>
          (let estimated_row_size = row_size + 24;
               estimated_table_size_mb =
                 (case row_count table_info of
                    None \<Rightarrow> 0
                  | Some rc \<Rightarrow>
                      if rc \<noteq> 0 then of_int (estimated_row_size * rc) / of_int (1024 * 1024)
                      else 0)
           in \<lparr> estimated_row_size_bytes = estimated_row_size,
                estimated_table_size_mb = estimated_table_size_mb,
                variable_length_columns = var_cols,
                has_large_objects =
                  list_ex (\<lambda>col. endswith (data_type col) ''(MAX)'') (columns table_info),
                performance_notes = get_performance_notes table_info \<rparr>))"

section \<open>The loops as list operations\<close>

lemma translate_loop_map: "translate_loop acc cols = acc @ map translate_column cols"
  by (induction cols arbitrary: acc) simp_all

lemma view_column_loop_filter:
  "view_column_loop acc cols =
     acc @ map (\<lambda>c. ''    ['' @ column_name c @ '']'')
             (filter (\<lambda>c. column_name c \<noteq> ''record_insert_datetime'') cols)"
  by (induction cols arbitrary: acc) simp_all

lemma translate_column_frame:
  "column_name (translate_column c) = column_name c"
  "nullable (translate_column c) = nullable c"
  "is_primary_key (translate_column c) = is_primary_key c"
  "is_unique (translate_column c) = is_unique c"
  "default_value (translate_column c) = default_value c"
  by (simp_all add: translate_column_def split: prod.splits)

lemma translate_column_fields:
  "data_type (translate_column col) = fst (translate_type col)"
  "precision (translate_column col) = fst (snd (translate_type col))"
  "scale (translate_column col) = snd (snd (translate_type col))"
  "max_length (translate_column col) = translate_length (fst (translate_type col)) (max_length col)"
  by (simp_all add: translate_column_def split: prod.splits)

lemma translate_type_max_length:
  "translate_type (col\<lparr>max_length := l\<rparr>) = translate_type col"
  by (cases col) (simp add: translate_type_def Let_def)

lemma translate_column_update:
  "translate_column col =
     col\<lparr> data_type := fst (translate_type col),
          max_length := translate_length (fst (translate_type col)) (max_length col),
          precision := fst (snd (translate_type col)),
          scale := snd (snd (translate_type col)) \<rparr>"
  by (cases col) (simp add: translate_column_def split: prod.splits)

lemma translate_length_defaults:
  "translate_length ''NVARCHAR'' None = Some 63"
  "translate_length ''NVARCHAR'' (Some 255) = Some 63"
  "translate_length ''NCHAR'' None = Some 1"
  "translate_length ''NCHAR'' (Some 1) = Some 1"
  "translate_length ''VARBINARY'' None = None"
  by (simp_all add: translate_length_def)







lemma is_ident_start_all: "\<forall>c. is_ident_start c = (c \<in> set first_characters)"
  by code_simp

lemma is_ident_char_all: "\<forall>c. is_ident_char c = (c \<in> set later_characters)"
  by code_simp

lemma is_ident_start_listed: "is_ident_start c = (c \<in> set first_characters)"
  using is_ident_start_all by blast

lemma is_ident_char_listed: "is_ident_char = (\<lambda>c. c \<in> set later_characters)"
  using is_ident_char_all by blast

lemma digit_not_ident_start:
  "48 \<le> (of_char c :: nat) \<Longrightarrow> (of_char c :: nat) \<le> 57 \<Longrightarrow> \<not> is_ident_start c"
  by (simp add: is_ident_start_def Let_def)

lemma storage_loop_sum:
  "storage_loop (a, b) cols =
     (a + sum_list (map (\<lambda>c.
            if data_type c = ''NVARCHAR'' \<or> data_type c = ''VARBINARY'' then
              (case max_length c of None \<Rightarrow> 510 | Some n \<Rightarrow> if n = 0 then 510 else n * 2)
            else if data_type c = ''NCHAR'' then
              (case max_length c of None \<Rightarrow> 2 | Some n \<Rightarrow> if n = 0 then 2 else n * 2)
            else if data_type c = ''DECIMAL'' then 9
            else 8) cols),
      b + int (length (filter (\<lambda>c. data_type c = ''NVARCHAR'' \<or> data_type c = ''VARBINARY'') cols)))"
proof (induction cols arbitrary: a b)
  case Nil
  show ?case by simp
next
  case (Cons col rest)
  show ?case
    by (simp add: Cons.IH split: option.split)
qed

lemmas eval_upper = upper_def upper_char_def char_of_def bit_Suc_0_iff


lemmas eval_translate =
  translate_column_def translate_type_def translate_length_def mapping_get_def
  oracle_to_sqlserver_mapping_def number_default_mapping_def new_ColumnInfo_def

section \<open>Whole-table translation keeps everything but type, length, precision, scale\<close>

text \<open>
  C8. \<open>translate_oracle_to_sqlserver\<close> returns a table whose columns are the translated
  source columns, one for one and in the source order; the names, nullability, primary-key
  flags, unique flags and default values of the columns are those of the source, and so are
  the table's name, schema, kind, primary-key list, unique-constraint groups and row
  count. A translated column differs from its source column at most in the four fields
  type, length, precision and scale.
\<close>

theorem translate_table_frame:
  "columns (translate_oracle_to_sqlserver t) = map translate_column (columns t)
   \<and> length (columns (translate_oracle_to_sqlserver t)) = length (columns t)
   \<and> map column_name (columns (translate_oracle_to_sqlserver t)) = map column_name (columns t)
   \<and> map nullable (columns (translate_oracle_to_sqlserver t)) = map nullable (columns t)
   \<and> map is_primary_key (columns (translate_oracle_to_sqlserver t))
       = map is_primary_key (columns t)
   \<and> map is_unique (columns (translate_oracle_to_sqlserver t)) = map is_unique (columns t)
   \<and> map default_value (columns (translate_oracle_to_sqlserver t))
       = map default_value (columns t)
   \<and> table_name (translate_oracle_to_sqlserver t) = table_name t
   \<and> schema_name (translate_oracle_to_sqlserver t) = schema_name t
   \<and> table_type (translate_oracle_to_sqlserver t) = table_type t
   \<and> primary_keys (translate_oracle_to_sqlserver t) = primary_keys t
   \<and> unique_constraints (translate_oracle_to_sqlserver t) = unique_constraints t
   \<and> row_count (translate_oracle_to_sqlserver t) = row_count t
   \<and> translate_column c =
        c\<lparr> data_type := data_type (translate_column c),
           max_length := max_length (translate_column c),
           precision := precision (translate_column c),
           scale := scale (translate_column c) \<rparr>"
proof -
  have cols: "columns (translate_oracle_to_sqlserver t) = map translate_column (columns t)"
    by (simp add: translate_oracle_to_sqlserver_def translate_loop_map)
  have tbl: "table_name (translate_oracle_to_sqlserver t) = table_name t
   \<and> schema_name (translate_oracle_to_sqlserver t) = schema_name t
   \<and> table_type (translate_oracle_to_sqlserver t) = table_type t
   \<and> primary_keys (translate_oracle_to_sqlserver t) = primary_keys t
   \<and> unique_constraints (translate_oracle_to_sqlserver t) = unique_constraints t
   \<and> row_count (translate_oracle_to_sqlserver t) = row_count t"
    by (simp add: translate_oracle_to_sqlserver_def)
  have col: "translate_column c =
        c\<lparr> data_type := data_type (translate_column c),
           max_length := max_length (translate_column c),
           precision := precision (translate_column c),
           scale := scale (translate_column c) \<rparr>"
    by (cases c) (simp add: translate_column_def split: prod.splits)
  show ?thesis
    using tbl col by (simp add: cols comp_def translate_column_frame)
qed

theorem translate_table_frame_witness:
  "columns (translate_oracle_to_sqlserver
      \<lparr> table_name = ''EMP'', schema_name = ''HR'', table_type = ''TABLE'',
        columns = [(new_ColumnInfo ''ID'' ''NUMBER'' False)
                     \<lparr>precision := Some 9, scale := Some 0, is_primary_key := True\<rparr>,
                   (new_ColumnInfo ''NAME'' ''VARCHAR2'' False)\<lparr>max_length := Some 400\<rparr>],
        primary_keys = [''ID''], unique_constraints = [], row_count = Some 10 \<rparr>)
   = [(new_ColumnInfo ''ID'' ''INT'' False)\<lparr>is_primary_key := True\<rparr>,
      (new_ColumnInfo ''NAME'' ''NVARCHAR'' False)\<lparr>max_length := Some 100\<rparr>]"
  using translate_table_frame [of
      "\<lparr> table_name = ''EMP'', schema_name = ''HR'', table_type = ''TABLE'',
        columns = [(new_ColumnInfo ''ID'' ''NUMBER'' False)
                     \<lparr>precision := Some 9, scale := Some 0, is_primary_key := True\<rparr>,
                   (new_ColumnInfo ''NAME'' ''VARCHAR2'' False)\<lparr>max_length := Some 400\<rparr>],
        primary_keys = [''ID''], unique_constraints = [], row_count = Some 10 \<rparr>"]
  by (simp add: eval_translate eval_upper)

section \<open>The NUMBER type\<close>

text \<open>
  C1, as the code has it. For a source column whose upper-cased type name is NUMBER:
  with neither precision nor scale the target type is BIGINT; with the scale absent or
  zero the target type is INT when the precision is present, not zero and at most 9, and
  BIGINT otherwise (also for a precision of 0, which the test
  \<open>col.precision and col.precision <= 9\<close> treats as absent), and precision and scale of
  the result are none; with a scale that is present and not zero the target type is
  DECIMAL and precision and scale are those of the source.
\<close>

theorem number_translation:
  assumes "upper (data_type col) = ''NUMBER''"
  shows "(precision col = None \<and> scale col = None \<longrightarrow>
            data_type (translate_column col) = ''BIGINT''
            \<and> precision (translate_column col) = None \<and> scale (translate_column col) = None)
       \<and> (scale col = None \<or> scale col = Some 0 \<longrightarrow>
            data_type (translate_column col) =
              (case precision col of
                 None \<Rightarrow> ''BIGINT''
               | Some p \<Rightarrow> if p \<noteq> 0 \<and> p \<le> 9 then ''INT'' else ''BIGINT'')
            \<and> precision (translate_column col) = None \<and> scale (translate_column col) = None)
       \<and> (scale col \<noteq> None \<and> scale col \<noteq> Some 0 \<longrightarrow>
            data_type (translate_column col) = ''DECIMAL''
            \<and> precision (translate_column col) = precision col
            \<and> scale (translate_column col) = scale col)"
  using assms
  by (simp add: translate_column_fields translate_type_def number_default_mapping_def)

text \<open>The four cases of the specification: NUMBER, NUMBER(9,0), NUMBER(10,0) and
  NUMBER(10,2), the first one written in lower case.\<close>

theorem number_translation_witness:
  "upper ''number'' = ''NUMBER''
   \<and> data_type (translate_column (new_ColumnInfo ''N'' ''number'' True)) = ''BIGINT''
   \<and> data_type (translate_column
        ((new_ColumnInfo ''N'' ''NUMBER'' True)\<lparr>precision := Some 9, scale := Some 0\<rparr>)) = ''INT''
   \<and> precision (translate_column
        ((new_ColumnInfo ''N'' ''NUMBER'' True)\<lparr>precision := Some 9, scale := Some 0\<rparr>)) = None
   \<and> data_type (translate_column
        ((new_ColumnInfo ''N'' ''NUMBER'' True)\<lparr>precision := Some 10, scale := Some 0\<rparr>)) = ''BIGINT''
   \<and> data_type (translate_column
        ((new_ColumnInfo ''N'' ''NUMBER'' True)\<lparr>precision := Some 10, scale := Some 2\<rparr>)) = ''DECIMAL''
   \<and> precision (translate_column
        ((new_ColumnInfo ''N'' ''NUMBER'' True)\<lparr>precision := Some 10, scale := Some 2\<rparr>)) = Some 10
   \<and> scale (translate_column
        ((new_ColumnInfo ''N'' ''NUMBER'' True)\<lparr>precision := Some 10, scale := Some 2\<rparr>)) = Some 2"
  using number_translation [of "new_ColumnInfo ''N'' ''number'' True"]
    number_translation [of "(new_ColumnInfo ''N'' ''NUMBER'' True)\<lparr>precision := Some 9, scale := Some 0\<rparr>"]
    number_translation [of "(new_ColumnInfo ''N'' ''NUMBER'' True)\<lparr>precision := Some 10, scale := Some 0\<rparr>"]
    number_translation [of "(new_ColumnInfo ''N'' ''NUMBER'' True)\<lparr>precision := Some 10, scale := Some 2\<rparr>"]
  by (simp add: new_ColumnInfo_def eval_upper)

text \<open>The claim as written gives INT for every precision at most 9. NUMBER(0,0) has
  precision \<open>0 \<le> 9\<close> and is translated to BIGINT.\<close>

theorem number_zero_precision_counterexample:
  "upper (data_type ((new_ColumnInfo ''QTY'' ''NUMBER'' True)
                       \<lparr>precision := Some 0, scale := Some 0\<rparr>)) = ''NUMBER''
   \<and> scale ((new_ColumnInfo ''QTY'' ''NUMBER'' True)
                       \<lparr>precision := Some 0, scale := Some 0\<rparr>) = Some 0
   \<and> precision ((new_ColumnInfo ''QTY'' ''NUMBER'' True)
                       \<lparr>precision := Some 0, scale := Some 0\<rparr>) = Some 0
   \<and> (0::int) \<le> 9
   \<and> data_type (translate_column ((new_ColumnInfo ''QTY'' ''NUMBER'' True)
                       \<lparr>precision := Some 0, scale := Some 0\<rparr>)) = ''BIGINT''
   \<and> data_type (translate_column ((new_ColumnInfo ''QTY'' ''NUMBER'' True)
                       \<lparr>precision := Some 0, scale := Some 0\<rparr>)) \<noteq> ''INT''"
  by (simp add: eval_translate eval_upper)

section \<open>Lengths of character columns\<close>




section \<open>Absent lengths\<close>

text \<open>
  C3, as the code has it. For a source column without a length: when the translated
  type is NVARCHAR the translation is that of the same column with length 255, and the
  translated length is 63, the default after the division by 4; when it is NCHAR the
  translation is that of the same column with length 1, and the translated length is 1;
  when it is VARBINARY no default is applied and the length stays absent. The translation
  is a total function: it has no failing branch.
\<close>

theorem absent_length_defaults:
  assumes "max_length col = None"
  shows "(data_type (translate_column col) = ''NVARCHAR'' \<longrightarrow>
            translate_column col = translate_column (col\<lparr>max_length := Some 255\<rparr>)
            \<and> max_length (translate_column col) = Some 63)
       \<and> (data_type (translate_column col) = ''NCHAR'' \<longrightarrow>
            translate_column col = translate_column (col\<lparr>max_length := Some 1\<rparr>)
            \<and> max_length (translate_column col) = Some 1)
       \<and> (data_type (translate_column col) = ''VARBINARY'' \<longrightarrow>
            max_length (translate_column col) = None)"
proof (intro conjI impI)
  assume "data_type (translate_column col) = ''NVARCHAR''"
  then have f: "fst (translate_type col) = ''NVARCHAR''"
    by (simp add: translate_column_fields)
  show "translate_column col = translate_column (col\<lparr>max_length := Some 255\<rparr>)"
    by (simp add: translate_column_update [of col]
        translate_column_update [of "col\<lparr>max_length := Some 255\<rparr>"] f assms
        translate_length_defaults translate_type_max_length)
  show "max_length (translate_column col) = Some 63"
    by (simp add: translate_column_fields f assms translate_length_defaults)
next
  assume "data_type (translate_column col) = ''NCHAR''"
  then have f: "fst (translate_type col) = ''NCHAR''"
    by (simp add: translate_column_fields)
  show "translate_column col = translate_column (col\<lparr>max_length := Some 1\<rparr>)"
    by (simp add: translate_column_update [of col]
        translate_column_update [of "col\<lparr>max_length := Some 1\<rparr>"] f assms
        translate_length_defaults translate_type_max_length)
  show "max_length (translate_column col) = Some 1"
    by (simp add: translate_column_fields f assms translate_length_defaults)
next
  assume "data_type (translate_column col) = ''VARBINARY''"
  then have f: "fst (translate_type col) = ''VARBINARY''"
    by (simp add: translate_column_fields)
  show "max_length (translate_column col) = None"
    by (simp add: translate_column_fields f assms translate_length_defaults)
qed

theorem absent_length_defaults_witness:
  "max_length (new_ColumnInfo ''NAME'' ''VARCHAR2'' True) = None
   \<and> data_type (translate_column (new_ColumnInfo ''NAME'' ''VARCHAR2'' True)) = ''NVARCHAR''
   \<and> max_length (translate_column (new_ColumnInfo ''NAME'' ''VARCHAR2'' True)) = Some 63
   \<and> data_type (translate_column (new_ColumnInfo ''FLAG'' ''CHAR'' True)) = ''NCHAR''
   \<and> max_length (translate_column (new_ColumnInfo ''FLAG'' ''CHAR'' True)) = Some 1"
proof -
  have t1: "data_type (translate_column (new_ColumnInfo ''NAME'' ''VARCHAR2'' True)) = ''NVARCHAR''"
    by (simp add: eval_translate eval_upper)
  have t2: "data_type (translate_column (new_ColumnInfo ''FLAG'' ''CHAR'' True)) = ''NCHAR''"
    by (simp add: eval_translate eval_upper)
  have l1: "max_length (new_ColumnInfo ''NAME'' ''VARCHAR2'' True) = None"
    by (simp add: new_ColumnInfo_def)
  have l2: "max_length (new_ColumnInfo ''FLAG'' ''CHAR'' True) = None"
    by (simp add: new_ColumnInfo_def)
  have r1: "max_length (translate_column (new_ColumnInfo ''NAME'' ''VARCHAR2'' True)) = Some 63"
    using absent_length_defaults [OF l1] t1 by blast
  have r2: "max_length (translate_column (new_ColumnInfo ''FLAG'' ''CHAR'' True)) = Some 1"
    using absent_length_defaults [OF l2] t2 by blast
  show ?thesis
    using l1 t1 r1 t2 r2 by blast
qed

text \<open>The claim as written promises a default length for every variable-length character
  or binary target. A RAW column without a length becomes a VARBINARY column without a
  length; and the length of a VARCHAR2 column without a length is 63 after translation,
  not 255.\<close>

theorem absent_length_counterexample:
  "max_length (new_ColumnInfo ''PAYLOAD'' ''RAW'' True) = None
   \<and> data_type (translate_column (new_ColumnInfo ''PAYLOAD'' ''RAW'' True)) = ''VARBINARY''
   \<and> max_length (translate_column (new_ColumnInfo ''PAYLOAD'' ''RAW'' True)) = None
   \<and> max_length (new_ColumnInfo ''NAME'' ''VARCHAR2'' True) = None
   \<and> data_type (translate_column (new_ColumnInfo ''NAME'' ''VARCHAR2'' True)) = ''NVARCHAR''
   \<and> max_length (translate_column (new_ColumnInfo ''NAME'' ''VARCHAR2'' True)) \<noteq> Some 255"
  by (simp add: eval_translate eval_upper)

section \<open>Types outside the mapping table\<close>

text \<open>
  C6, as the code has it. For a source column whose upper-cased type name is not a key of
  the mapping table and is not NUMBER, the translated type is the upper-cased type name
  (so a type name already in upper case passes through unchanged), and precision and scale
  are those of the source.
\<close>

theorem unmapped_type_passthrough:
  assumes "upper (data_type col) \<notin> set (map fst oracle_to_sqlserver_mapping)"
      and "upper (data_type col) \<noteq> ''NUMBER''"
  shows "data_type (translate_column col) = upper (data_type col)
       \<and> (upper (data_type col) = data_type col \<longrightarrow>
            data_type (translate_column col) = data_type col)
       \<and> precision (translate_column col) = precision col
       \<and> scale (translate_column col) = scale col"
proof -
  from assms(1) have "map_of oracle_to_sqlserver_mapping (upper (data_type col)) = None"
    by (simp add: map_of_eq_None_iff)
  with assms(2) have
    "data_type (translate_column col) = upper (data_type col)
     \<and> precision (translate_column col) = precision col
     \<and> scale (translate_column col) = scale col"
    by (simp add: translate_column_fields translate_type_def mapping_get_def)
  then show ?thesis
    by metis
qed

theorem unmapped_type_passthrough_witness:
  "upper ''INTEGER'' \<notin> set (map fst oracle_to_sqlserver_mapping)
   \<and> data_type (translate_column
        ((new_ColumnInfo ''AGE'' ''INTEGER'' True)\<lparr>precision := Some 5, scale := Some 1\<rparr>))
       = ''INTEGER''
   \<and> precision (translate_column
        ((new_ColumnInfo ''AGE'' ''INTEGER'' True)\<lparr>precision := Some 5, scale := Some 1\<rparr>))
       = Some 5
   \<and> scale (translate_column
        ((new_ColumnInfo ''AGE'' ''INTEGER'' True)\<lparr>precision := Some 5, scale := Some 1\<rparr>))
       = Some 1"
proof -
  have u: "upper ''INTEGER'' = ''INTEGER''"
    by (simp add: eval_upper)
  have k: "upper (data_type
        ((new_ColumnInfo ''AGE'' ''INTEGER'' True)\<lparr>precision := Some 5, scale := Some 1\<rparr>))
      \<notin> set (map fst oracle_to_sqlserver_mapping)"
    by (simp add: new_ColumnInfo_def u oracle_to_sqlserver_mapping_def)
  have n: "upper (data_type
        ((new_ColumnInfo ''AGE'' ''INTEGER'' True)\<lparr>precision := Some 5, scale := Some 1\<rparr>))
      \<noteq> ''NUMBER''"
    by (simp add: new_ColumnInfo_def u)
  show ?thesis
    using unmapped_type_passthrough [OF k n] k
    by (simp add: new_ColumnInfo_def u)
qed

text \<open>The claim as written keeps the type name unchanged. The type name \<open>integer\<close> is
  not in the table in any letter case, and it is translated to \<open>INTEGER\<close>.\<close>

theorem unmapped_type_case_counterexample:
  "upper (data_type (new_ColumnInfo ''AGE'' ''integer'' True))
      \<notin> set (map fst oracle_to_sqlserver_mapping)
   \<and> upper (data_type (new_ColumnInfo ''AGE'' ''integer'' True)) \<noteq> ''NUMBER''
   \<and> data_type (translate_column (new_ColumnInfo ''AGE'' ''integer'' True)) = ''INTEGER''
   \<and> data_type (translate_column (new_ColumnInfo ''AGE'' ''integer'' True))
       \<noteq> data_type (new_ColumnInfo ''AGE'' ''integer'' True)"
  by (simp add: eval_translate eval_upper)

section \<open>The audit column and the view\<close>

text \<open>
  C5, as the code has it. \<open>add_audit_columns\<close> returns the table with exactly one more
  column, placed last: the column named \<open>record_insert_datetime\<close>, of type DATETIME2,
  not nullable, with the default expression \<open>GETDATE()\<close>; the other fields of the table
  are unchanged. The column list of the view generated by \<open>_generate_view_ddl\<close> consists
  of the bracketed names of the columns whose name is not \<open>record_insert_datetime\<close>, in
  their original order, and the view text is built around that list; \<open>generate_ddl\<close>
  builds the view from the columns of the table it is given. So the view of an augmented
  table never lists the appended column, and it lists the table's own columns except
  those that carry the same name; for a table none of whose own columns carries that
  name, the augmented table has exactly one column of that name and its view projects
  exactly the table's own columns.
\<close>

theorem audit_column_and_view_projection:
  "columns (add_audit_columns t) = columns t @ [audit_column]
   \<and> length (columns (add_audit_columns t)) = length (columns t) + 1
   \<and> column_name audit_column = ''record_insert_datetime''
   \<and> data_type audit_column = ''DATETIME2''
   \<and> \<not> nullable audit_column
   \<and> default_value audit_column = Some ''GETDATE()''
   \<and> table_name (add_audit_columns t) = table_name t
   \<and> schema_name (add_audit_columns t) = schema_name t
   \<and> table_type (add_audit_columns t) = table_type t
   \<and> primary_keys (add_audit_columns t) = primary_keys t
   \<and> unique_constraints (add_audit_columns t) = unique_constraints t
   \<and> row_count (add_audit_columns t) = row_count t
   \<and> view_column_loop [] cols =
        map (\<lambda>c. ''    ['' @ column_name c @ '']'')
          (filter (\<lambda>c. column_name c \<noteq> ''record_insert_datetime'') cols)
   \<and> generate_view_ddl tgt_schema tgt_table view_name cols =
        ''CREATE VIEW ['' @ tgt_schema @ ''].['' @ view_name @ ''] AS'' @ nl @
        ''SELECT'' @ nl @
        join ('','' @ nl)
          (map (\<lambda>c. ''    ['' @ column_name c @ '']'')
             (filter (\<lambda>c. column_name c \<noteq> ''record_insert_datetime'') cols)) @ nl @
        ''FROM ['' @ tgt_schema @ ''].['' @ tgt_table @ ''];''
   \<and> view_ddl (generate_ddl t tgt_schema tgt_table True) =
        Some (generate_view_ddl tgt_schema tgt_table
                (schema_name t @ ''_'' @ table_name t) (columns t))
   \<and> view_column_loop [] (columns (add_audit_columns t)) =
        map (\<lambda>c. ''    ['' @ column_name c @ '']'')
          (filter (\<lambda>c. column_name c \<noteq> ''record_insert_datetime'') (columns t))
   \<and> ((\<forall>c \<in> set (columns t). column_name c \<noteq> ''record_insert_datetime'') \<longrightarrow>
        length (filter (\<lambda>c. column_name c = ''record_insert_datetime'')
                  (columns (add_audit_columns t))) = 1
        \<and> view_column_loop [] (columns (add_audit_columns t)) =
            map (\<lambda>c. ''    ['' @ column_name c @ '']'') (columns t))"
proof -
  have own: "view_column_loop [] (columns (add_audit_columns t)) =
        map (\<lambda>c. ''    ['' @ column_name c @ '']'')
          (filter (\<lambda>c. column_name c \<noteq> ''record_insert_datetime'') (columns t))"
    by (simp add: add_audit_columns_def view_column_loop_filter audit_column_def)
  have g: "view_ddl (generate_ddl t tgt_schema tgt_table True) =
        Some (generate_view_ddl tgt_schema tgt_table
                (schema_name t @ ''_'' @ table_name t) (columns t))"
    by (simp add: generate_ddl_def Let_def)
  have a: "columns (add_audit_columns t) = columns t @ [audit_column]"
    by (simp add: add_audit_columns_def)
  have b: "column_name audit_column = ''record_insert_datetime''
   \<and> data_type audit_column = ''DATETIME2''
   \<and> \<not> nullable audit_column
   \<and> default_value audit_column = Some ''GETDATE()''"
    by (simp add: audit_column_def)
  have c: "table_name (add_audit_columns t) = table_name t
   \<and> schema_name (add_audit_columns t) = schema_name t
   \<and> table_type (add_audit_columns t) = table_type t
   \<and> primary_keys (add_audit_columns t) = primary_keys t
   \<and> unique_constraints (add_audit_columns t) = unique_constraints t
   \<and> row_count (add_audit_columns t) = row_count t"
    by (simp add: add_audit_columns_def)
  have d: "view_column_loop [] cols =
        map (\<lambda>c. ''    ['' @ column_name c @ '']'')
          (filter (\<lambda>c. column_name c \<noteq> ''record_insert_datetime'') cols)"
    by (simp add: view_column_loop_filter)
  have e: "generate_view_ddl tgt_schema tgt_table view_name cols =
        ''CREATE VIEW ['' @ tgt_schema @ ''].['' @ view_name @ ''] AS'' @ nl @
        ''SELECT'' @ nl @
        join ('','' @ nl)
          (map (\<lambda>c. ''    ['' @ column_name c @ '']'')
             (filter (\<lambda>c. column_name c \<noteq> ''record_insert_datetime'') cols)) @ nl @
        ''FROM ['' @ tgt_schema @ ''].['' @ tgt_table @ ''];''"
    by (simp add: generate_view_ddl_def view_column_loop_filter)
  have f: "length (filter (\<lambda>c. column_name c = ''record_insert_datetime'')
                  (columns (add_audit_columns t))) = 1
        \<and> view_column_loop [] (columns (add_audit_columns t)) =
            map (\<lambda>c. ''    ['' @ column_name c @ '']'') (columns t)"
    if h: "\<forall>c \<in> set (columns t). column_name c \<noteq> ''record_insert_datetime''"
  proof -
    from h have keep: "filter (\<lambda>c. column_name c \<noteq> ''record_insert_datetime'') (columns t)
                        = columns t"
      by (simp add: filter_id_conv)
    from h have none: "filter (\<lambda>c. column_name c = ''record_insert_datetime'') (columns t) = []"
      by (simp add: filter_empty_conv)
    show ?thesis
      by (simp add: a view_column_loop_filter keep none audit_column_def)
  qed
  from a have len: "length (columns (add_audit_columns t)) = length (columns t) + 1"
    by simp
  show ?thesis
    using a len b c d e g own f by blast
qed

theorem audit_column_and_view_projection_witness:
  "map column_name (columns
      \<lparr> table_name = ''EMP'', schema_name = ''HR'', table_type = ''TABLE'',
        columns = [new_ColumnInfo ''ID'' ''INT'' False, new_ColumnInfo ''NAME'' ''NVARCHAR'' True],
        primary_keys = [''ID''], unique_constraints = [], row_count = None \<rparr>) = [''ID'', ''NAME'']
   \<and> map column_name (columns (add_audit_columns
      \<lparr> table_name = ''EMP'', schema_name = ''HR'', table_type = ''TABLE'',
        columns = [new_ColumnInfo ''ID'' ''INT'' False, new_ColumnInfo ''NAME'' ''NVARCHAR'' True],
        primary_keys = [''ID''], unique_constraints = [], row_count = None \<rparr>)) = [''ID'', ''NAME'', ''record_insert_datetime'']
   \<and> view_column_loop [] (columns (add_audit_columns
      \<lparr> table_name = ''EMP'', schema_name = ''HR'', table_type = ''TABLE'',
        columns = [new_ColumnInfo ''ID'' ''INT'' False, new_ColumnInfo ''NAME'' ''NVARCHAR'' True],
        primary_keys = [''ID''], unique_constraints = [], row_count = None \<rparr>)) = [''    [ID]'', ''    [NAME]'']
   \<and> generate_view_ddl ''bronze'' ''src_emp'' ''HR_EMP'' (columns (add_audit_columns
      \<lparr> table_name = ''EMP'', schema_name = ''HR'', table_type = ''TABLE'',
        columns = [new_ColumnInfo ''ID'' ''INT'' False, new_ColumnInfo ''NAME'' ''NVARCHAR'' True],
        primary_keys = [''ID''], unique_constraints = [], row_count = None \<rparr>)) =
       ''CREATE VIEW [bronze].[HR_EMP] AS'' @ nl @ ''SELECT'' @ nl @
       ''    [ID],'' @ nl @ ''    [NAME]'' @ nl @ ''FROM [bronze].[src_emp];''"
proof -
  let ?T = "\<lparr> table_name = ''EMP'', schema_name = ''HR'', table_type = ''TABLE'',
        columns = [new_ColumnInfo ''ID'' ''INT'' False, new_ColumnInfo ''NAME'' ''NVARCHAR'' True],
        primary_keys = [''ID''], unique_constraints = [], row_count = None \<rparr>"
  have h: "\<forall>c \<in> set (columns ?T). column_name c \<noteq> ''record_insert_datetime''"
    by (simp add: new_ColumnInfo_def)
  note th = audit_column_and_view_projection [of ?T "columns (add_audit_columns ?T)"
      "''bronze''" "''src_emp''" "''HR_EMP''"]
  have a: "columns (add_audit_columns ?T) = columns ?T @ [audit_column]"
    using th by (elim conjE)
  have n: "column_name audit_column = ''record_insert_datetime''"
    using th by (elim conjE)
  have v: "view_column_loop [] (columns (add_audit_columns ?T)) =
            map (\<lambda>c. ''    ['' @ column_name c @ '']'') (columns ?T)"
    using th h by (elim conjE) simp
  have g: "generate_view_ddl ''bronze'' ''src_emp'' ''HR_EMP'' (columns (add_audit_columns ?T)) =
        ''CREATE VIEW ['' @ ''bronze'' @ ''].['' @ ''HR_EMP'' @ ''] AS'' @ nl @
        ''SELECT'' @ nl @
        join ('','' @ nl)
          (map (\<lambda>c. ''    ['' @ column_name c @ '']'')
             (filter (\<lambda>c. column_name c \<noteq> ''record_insert_datetime'')
                (columns (add_audit_columns ?T)))) @ nl @
        ''FROM ['' @ ''bronze'' @ ''].['' @ ''src_emp'' @ ''];''"
    using th by (elim conjE)
  have 1: "map column_name (columns (add_audit_columns ?T))
             = [''ID'', ''NAME'', ''record_insert_datetime'']"
    by (simp only: a) (simp add: n new_ColumnInfo_def)
  have 2: "view_column_loop [] (columns (add_audit_columns ?T)) = [''    [ID]'', ''    [NAME]'']"
    by (simp only: v) (simp add: new_ColumnInfo_def)
  have 3: "generate_view_ddl ''bronze'' ''src_emp'' ''HR_EMP'' (columns (add_audit_columns ?T)) =
       ''CREATE VIEW [bronze].[HR_EMP] AS'' @ nl @ ''SELECT'' @ nl @
       ''    [ID],'' @ nl @ ''    [NAME]'' @ nl @ ''FROM [bronze].[src_emp];''"
    by (subst g, subst a) (simp add: n new_ColumnInfo_def)
  have 0: "map column_name (columns ?T) = [''ID'', ''NAME'']"
    by (simp add: new_ColumnInfo_def)
  show ?thesis
    using 0 1 2 3 by (intro conjI)
qed

text \<open>The claim as written takes only the appended column out of the view. A table that
  has a column of its own named \<open>record_insert_datetime\<close> has two columns of that name
  after the augmentation; without the appended one the columns are the table's own two,
  and the view lists only \<open>ID\<close>.\<close>

theorem view_projection_counterexample:
  "map column_name (columns (add_audit_columns
      \<lparr> table_name = ''LOAD_LOG'', schema_name = ''dbo'', table_type = ''TABLE'',
        columns = [new_ColumnInfo ''ID'' ''INT'' False,
                   new_ColumnInfo ''record_insert_datetime'' ''DATETIME2'' True],
        primary_keys = [''ID''], unique_constraints = [], row_count = None \<rparr>))
     = [''ID'', ''record_insert_datetime'', ''record_insert_datetime'']
   \<and> butlast (columns (add_audit_columns
      \<lparr> table_name = ''LOAD_LOG'', schema_name = ''dbo'', table_type = ''TABLE'',
        columns = [new_ColumnInfo ''ID'' ''INT'' False,
                   new_ColumnInfo ''record_insert_datetime'' ''DATETIME2'' True],
        primary_keys = [''ID''], unique_constraints = [], row_count = None \<rparr>))
     = [new_ColumnInfo ''ID'' ''INT'' False,
        new_ColumnInfo ''record_insert_datetime'' ''DATETIME2'' True]
   \<and> view_column_loop [] (columns (add_audit_columns
      \<lparr> table_name = ''LOAD_LOG'', schema_name = ''dbo'', table_type = ''TABLE'',
        columns = [new_ColumnInfo ''ID'' ''INT'' False,
                   new_ColumnInfo ''record_insert_datetime'' ''DATETIME2'' True],
        primary_keys = [''ID''], unique_constraints = [], row_count = None \<rparr>))
     = [''    [ID]'']
   \<and> view_column_loop [] (columns (add_audit_columns
      \<lparr> table_name = ''LOAD_LOG'', schema_name = ''dbo'', table_type = ''TABLE'',
        columns = [new_ColumnInfo ''ID'' ''INT'' False,
                   new_ColumnInfo ''record_insert_datetime'' ''DATETIME2'' True],
        primary_keys = [''ID''], unique_constraints = [], row_count = None \<rparr>))
     \<noteq> [''    [ID]'', ''    [record_insert_datetime]'']"
  by (simp add: add_audit_columns_def audit_column_def new_ColumnInfo_def)

section \<open>Translated character columns never render as MAX\<close>




section \<open>Rendering of binary lengths\<close>

text \<open>A translated VARBINARY column keeps its source byte length, cut at 8000.\<close>

lemma varbinary_length_clamped:
  assumes "data_type (translate_column col) = ''VARBINARY''"
      and "max_length col = Some n"
  shows "max_length (translate_column col) = Some (min n 8000)"
  using assms
  by (auto simp add: translate_column_fields translate_length_def)

text \<open>The rendering rule of \<open>_format_column_definition\<close> for the three types with a
  length: one threshold, 4000, for the character and the binary types alike.\<close>

lemma format_data_type_length_rule:
  assumes "data_type col = ''NVARCHAR'' \<or> data_type col = ''NCHAR'' \<or> data_type col = ''VARBINARY''"
  shows "format_data_type col =
           (case max_length col of
              None \<Rightarrow> data_type col @ ''(255)''
            | Some n \<Rightarrow>
                if n = 0 then data_type col @ ''(255)''
                else if n \<le> 4000 then data_type col @ ''('' @ str_of_int n @ '')''
                else data_type col @ ''(MAX)'')"
  using assms by (auto simp add: format_data_type_def split: option.split)

text \<open>
  C4. The claim renders a binary type with \<open>(N)\<close> for every valid length up to 8000, the
  limit that \<open>_translate_column\<close> itself applies to VARBINARY (``SQL Server VARBINARY max
  without MAX''). \<open>_format_column_definition\<close> compares every length with 4000: a RAW
  column of 5000 bytes is translated to VARBINARY with length 5000, below 8000, and
  rendered as \<open>VARBINARY(MAX)\<close>.
\<close>

theorem varbinary_5000_rendered_as_max:
  "data_type (translate_column
      ((new_ColumnInfo ''PAYLOAD'' ''RAW'' True)\<lparr>max_length := Some 5000\<rparr>)) = ''VARBINARY''
   \<and> max_length (translate_column
      ((new_ColumnInfo ''PAYLOAD'' ''RAW'' True)\<lparr>max_length := Some 5000\<rparr>)) = Some 5000
   \<and> (5000::int) \<le> 8000
   \<and> format_column_definition (translate_column
      ((new_ColumnInfo ''PAYLOAD'' ''RAW'' True)\<lparr>max_length := Some 5000\<rparr>))
       = ''[PAYLOAD] VARBINARY(MAX)''"
  by (simp add: eval_translate eval_upper format_column_definition_def format_data_type_def)

section \<open>Naming validation\<close>

text \<open>What the code does, with the pattern spelled out: a name is valid exactly when it has
  at most 128 characters, is identifier syntax or identifier syntax followed by one line
  feed (the \<open>$\<close> of \<open>re.match\<close> also matches before a line feed that ends the name),
  and its upper-cased form is not a reserved word.\<close>

lemma re_match_identifier_syntax:
  "re_match_identifier s =
     (spec_identifier_syntax s
      \<or> (s \<noteq> [] \<and> last s = CHR 0x0A \<and> spec_identifier_syntax (butlast s)))"
proof (cases s)
  case Nil
  then show ?thesis
    by (simp add: re_match_identifier_def spec_identifier_syntax_def)
next
  case s: (Cons c cs)
  show ?thesis
  proof (cases cs)
    case Nil
    with s show ?thesis
      by (simp add: re_match_identifier_def spec_identifier_syntax_def is_ident_start_listed)
  next
    case (Cons d ds)
    with s show ?thesis
      by (auto simp add: re_match_identifier_def spec_identifier_syntax_def
          is_ident_start_listed is_ident_char_listed)
  qed
qed

lemma validate_naming_convention_exact:
  "fst (validate_naming_convention name) =
     (length name \<le> 128
      \<and> (spec_identifier_syntax name
          \<or> (name \<noteq> [] \<and> last name = CHR 0x0A \<and> spec_identifier_syntax (butlast name)))
      \<and> upper name \<notin> set reserved_words)"
proof -
  have "spec_identifier_syntax [] = False"
    by (simp add: spec_identifier_syntax_def)
  then show ?thesis
    by (auto simp add: validate_naming_convention_def re_match_identifier_syntax)
qed

text \<open>On the names that do not end in a line feed the flag is false exactly in the four
  cases of the specification.\<close>

lemma validate_naming_convention_no_line_feed:
  assumes "name = [] \<or> last name \<noteq> CHR 0x0A"
  shows "(fst (validate_naming_convention name) = False) =
           (name = [] \<or> length name > 128 \<or> \<not> spec_identifier_syntax name
            \<or> upper name \<in> set reserved_words)"
proof -
  have "spec_identifier_syntax [] = False"
    by (simp add: spec_identifier_syntax_def)
  with assms show ?thesis
    by (auto simp add: validate_naming_convention_exact)
qed

text \<open>The examples of the specification: the empty name, every name of 129 characters,
  every name that starts with a digit and every name whose upper-cased form is TABLE are
  rejected, and \<open>customer_orders\<close> is valid.\<close>

lemma validate_naming_convention_examples:
  "fst (validate_naming_convention []) = False
   \<and> (length name = 129 \<longrightarrow> fst (validate_naming_convention name) = False)
   \<and> (48 \<le> (of_char c :: nat) \<and> (of_char c :: nat) \<le> 57 \<longrightarrow>
         fst (validate_naming_convention (c # cs)) = False)
   \<and> (upper name = ''TABLE'' \<longrightarrow> fst (validate_naming_convention name) = False)
   \<and> validate_naming_convention ''customer_orders'' = (True, ''Valid table name'')"
proof -
  have iff: "(fst (validate_naming_convention name) = False) =
     (name = [] \<or> length name > 128 \<or> \<not> re_match_identifier name
      \<or> upper name \<in> set reserved_words)" for name
    by (simp add: validate_naming_convention_def)
  have e: "fst (validate_naming_convention []) = False"
    by (simp add: validate_naming_convention_def)
  have l: "fst (validate_naming_convention name) = False" if "length name = 129"
    using that iff [of name] by simp
  have d: "fst (validate_naming_convention (c # cs)) = False"
    if "48 \<le> (of_char c :: nat) \<and> (of_char c :: nat) \<le> 57"
    using that iff [of "c # cs"] digit_not_ident_start [of c]
    by (simp add: re_match_identifier_def)
  have t: "fst (validate_naming_convention name) = False" if "upper name = ''TABLE''"
    using that iff [of name] by (simp add: reserved_words_def)
  have m: "re_match_identifier ''customer_orders''"
    by (simp add: re_match_identifier_def is_ident_start_def is_ident_char_def)
  have u: "upper ''customer_orders'' = ''CUSTOMER_ORDERS''"
    by (simp add: eval_upper)
  have c: "validate_naming_convention ''customer_orders'' = (True, ''Valid table name'')"
    by (simp add: validate_naming_convention_def m u reserved_words_def)
  show ?thesis
    using e l d t c by auto
qed

text \<open>
  C7. The claim makes the flag false for every name that fails the pattern
  \<open>^[A-Za-z_][A-Za-z0-9_]*$\<close>, and the message of the code for that case says that a name
  must ``contain only letters, numbers, and underscores''. The name TABLE followed by a
  line feed is not identifier syntax, and neither is \<open>abc\<close> followed by a line feed;
  \<open>validate_naming_convention\<close> returns \<open>(True, 'Valid table name')\<close> for both. A line
  feed inside the name, and the name TABLE itself, are rejected.
\<close>

theorem trailing_line_feed_accepted:
  "validate_naming_convention (''TABLE'' @ [CHR 0x0A]) = (True, ''Valid table name'')
   \<and> \<not> spec_identifier_syntax (''TABLE'' @ [CHR 0x0A])
   \<and> validate_naming_convention (''abc'' @ [CHR 0x0A]) = (True, ''Valid table name'')
   \<and> \<not> spec_identifier_syntax (''abc'' @ [CHR 0x0A])
   \<and> fst (validate_naming_convention (''TAB'' @ [CHR 0x0A] @ ''LE'')) = False
   \<and> fst (validate_naming_convention ''TABLE'') = False"
  by (simp add: validate_naming_convention_def re_match_identifier_def is_ident_start_def
      is_ident_char_def spec_identifier_syntax_def first_characters_def later_characters_def
      reserved_words_def eval_upper)

section \<open>Storage estimate\<close>

text \<open>
  C9, as the code has it. The estimated row size is 24 plus the sum over the columns of:
  for NVARCHAR and for VARBINARY, twice the length when the length is present and not
  zero, and 510 otherwise; for NCHAR, twice the length when the length is present and not
  zero, and 2 otherwise; 9 for DECIMAL; 8 for every other type, INT, BIGINT and DATETIME2
  among them. The estimated table size is that row size times the row count, divided by
  \<open>1024 * 1024\<close>, when the row count is known, and 0 when it is not.
\<close>

theorem storage_estimate:
  "estimated_row_size_bytes (estimate_storage_impact t) =
     sum_list (map (\<lambda>c.
            if data_type c = ''NVARCHAR'' \<or> data_type c = ''VARBINARY'' then
              (case max_length c of None \<Rightarrow> 510 | Some n \<Rightarrow> if n = 0 then 510 else n * 2)
            else if data_type c = ''NCHAR'' then
              (case max_length c of None \<Rightarrow> 2 | Some n \<Rightarrow> if n = 0 then 2 else n * 2)
            else if data_type c = ''DECIMAL'' then 9
            else 8) (columns t)) + 24
   \<and> estimated_table_size_mb (estimate_storage_impact t) =
       (case row_count t of
          None \<Rightarrow> 0
        | Some rc \<Rightarrow>
            of_int (estimated_row_size_bytes (estimate_storage_impact t) * rc) / 1048576)"
  by (simp add: estimate_storage_impact_def storage_loop_sum Let_def split: option.split)

text \<open>Six columns, one of each kind: \<open>200 + 8 + 9 + 20 + 8 + 8 + 24 = 277\<close> bytes a row,
  and 2048 rows take \<open>277 / 512\<close> megabytes.\<close>

theorem storage_estimate_witness:
  "estimated_row_size_bytes (estimate_storage_impact
      \<lparr> table_name = ''EMP'', schema_name = ''HR'', table_type = ''TABLE'',
        columns = [(new_ColumnInfo ''NAME'' ''NVARCHAR'' True)\<lparr>max_length := Some 100\<rparr>,
                   new_ColumnInfo ''ID'' ''INT'' False,
                   new_ColumnInfo ''PRICE'' ''DECIMAL'' True,
                   (new_ColumnInfo ''CODE'' ''NCHAR'' True)\<lparr>max_length := Some 10\<rparr>,
                   new_ColumnInfo ''MADE'' ''DATETIME2'' True,
                   new_ColumnInfo ''RATIO'' ''FLOAT'' True],
        primary_keys = [], unique_constraints = [], row_count = Some 2048 \<rparr>) = 277
   \<and> estimated_table_size_mb (estimate_storage_impact
      \<lparr> table_name = ''EMP'', schema_name = ''HR'', table_type = ''TABLE'',
        columns = [(new_ColumnInfo ''NAME'' ''NVARCHAR'' True)\<lparr>max_length := Some 100\<rparr>,
                   new_ColumnInfo ''ID'' ''INT'' False,
                   new_ColumnInfo ''PRICE'' ''DECIMAL'' True,
                   (new_ColumnInfo ''CODE'' ''NCHAR'' True)\<lparr>max_length := Some 10\<rparr>,
                   new_ColumnInfo ''MADE'' ''DATETIME2'' True,
                   new_ColumnInfo ''RATIO'' ''FLOAT'' True],
        primary_keys = [], unique_constraints = [], row_count = Some 2048 \<rparr>) = 277 / 512"
proof -
  let ?T = "\<lparr> table_name = ''EMP'', schema_name = ''HR'', table_type = ''TABLE'',
        columns = [(new_ColumnInfo ''NAME'' ''NVARCHAR'' True)\<lparr>max_length := Some 100\<rparr>,
                   new_ColumnInfo ''ID'' ''INT'' False,
                   new_ColumnInfo ''PRICE'' ''DECIMAL'' True,
                   (new_ColumnInfo ''CODE'' ''NCHAR'' True)\<lparr>max_length := Some 10\<rparr>,
                   new_ColumnInfo ''MADE'' ''DATETIME2'' True,
                   new_ColumnInfo ''RATIO'' ''FLOAT'' True],
        primary_keys = [], unique_constraints = [], row_count = Some 2048 \<rparr>"
  note th = storage_estimate [of ?T]
  have r: "estimated_row_size_bytes (estimate_storage_impact ?T) = 277"
    by (subst th [THEN conjunct1]) (simp add: new_ColumnInfo_def)
  have m: "estimated_table_size_mb (estimate_storage_impact ?T) = 277 / 512"
    by (subst th [THEN conjunct2], subst r) simp
  show ?thesis
    using r m by (intro conjI)
qed

text \<open>The claim as written counts 8 bytes for a VARBINARY column, which is not a Unicode
  type, and \<open>length \<times> 2\<close> for an NVARCHAR column whose length is known. A VARBINARY
  column of length 100 counts 200 bytes, and an NVARCHAR column of the known length 0
  counts 510.\<close>

theorem storage_estimate_counterexample:
  "estimated_row_size_bytes (estimate_storage_impact
      \<lparr> table_name = ''EMP'', schema_name = ''HR'', table_type = ''TABLE'',
        columns = [(new_ColumnInfo ''PAYLOAD'' ''VARBINARY'' True)\<lparr>max_length := Some 100\<rparr>],
        primary_keys = [], unique_constraints = [], row_count = None \<rparr>) = 224
   \<and> (224::int) \<noteq> 8 + 24
   \<and> estimated_row_size_bytes (estimate_storage_impact
      \<lparr> table_name = ''EMP'', schema_name = ''HR'', table_type = ''TABLE'',
        columns = [(new_ColumnInfo ''NOTE'' ''NVARCHAR'' True)\<lparr>max_length := Some 0\<rparr>],
        primary_keys = [], unique_constraints = [], row_count = None \<rparr>) = 534
   \<and> (534::int) \<noteq> 0 * 2 + 24"
  by (simp add: estimate_storage_impact_def new_ColumnInfo_def)

end
